theory Spec2Isabelle
  imports Main "HOL-Library.Multiset"
begin

section \<open>A model of \<open>cnn_scraper.py\<close>\<close>

text \<open>
  The scraper fetches a landing page, collects the article links on it, fetches every
  article on a thread pool and extracts title, date and body text from each page.

  The program's own logic is embedded function by function. What it calls in libraries
  (\<open>requests\<close>, \<open>BeautifulSoup\<close>, \<open>datetime.strptime\<close>, the completion order of the
  thread pool) is not part of the repository and is taken as a parameter, collected in the
  record \<open>library\<close>. Exceptions are values of the type \<open>exn\<close>. Console messages and the
  timing measurements printed with them are left out.

  A Python \<open>str\<close> is modelled as a \<open>string\<close>; every \<open>char\<close> stands for one code point
  below 256. In that range \<open>\d\<close> matches the ten ASCII digits only.
\<close>

subsection \<open>String operations of Python used by the program\<close>

text \<open>The code points below 256 that \<open>str.strip()\<close> removes.\<close>

definition py_isspace :: "char \<Rightarrow> bool" where
  "py_isspace c = ((of_char c :: nat) \<in> {9, 10, 11, 12, 13, 28, 29, 30, 31, 32, 133, 160})"

text \<open>\<open>s.strip()\<close>\<close>

definition py_strip :: "string \<Rightarrow> string" where
  "py_strip s = rev (dropWhile py_isspace (rev (dropWhile py_isspace s)))"

text \<open>\<open>s.startswith(p)\<close>\<close>

fun startswith :: "string \<Rightarrow> string \<Rightarrow> bool" where
  "startswith s [] = True"
| "startswith [] (p # ps) = False"
| "startswith (c # cs) (p # ps) = (c = p \<and> startswith cs ps)"

text \<open>\<open>sub in s\<close>\<close>

fun str_contains :: "string \<Rightarrow> string \<Rightarrow> bool" where
  "str_contains sub [] = (sub = [])"
| "str_contains sub (c # cs) = (startswith (c # cs) sub \<or> str_contains sub cs)"

text \<open>
  \<open>s.replace(old, "")\<close>: the occurrences of \<open>old\<close> are found from left to right, without
  overlap, and removed. With an empty \<open>old\<close> Python inserts the replacement between the
  characters, which leaves \<open>s\<close> as it is when the replacement is empty.
\<close>

function str_remove :: "string \<Rightarrow> string \<Rightarrow> string" where
  "str_remove old s =
     (if old = [] then s
      else if startswith s old then str_remove old (drop (length old) s)
      else (case s of [] \<Rightarrow> [] | c # cs \<Rightarrow> c # str_remove old cs))"
  by pat_completeness auto
termination
proof (relation "measure (\<lambda>(old, s). length s)")
  show "wf (measure (\<lambda>(old, s). length s))" by simp
next
  fix old s :: string
  assume nonempty: "old \<noteq> []" and starts: "startswith s old"
  from starts have "length old \<le> length s"
    by (induction s old rule: startswith.induct) auto
  moreover from nonempty have "0 < length old"
    by simp
  ultimately have "length s - length old < length s"
    by arith
  then show "((old, drop (length old) s), (old, s)) \<in> measure (\<lambda>(old, s). length s)"
    by simp
next
  fix old s :: string and c :: char and cs :: string
  assume "s = c # cs"
  then show "((old, cs), (old, s)) \<in> measure (\<lambda>(old, s). length s)"
    by simp
qed

declare str_remove.simps [simp del]

text \<open>\<open>sep.join(xs)\<close>\<close>

fun str_join :: "string \<Rightarrow> string list \<Rightarrow> string" where
  "str_join sep [] = []"
| "str_join sep [x] = x"
| "str_join sep (x # y # ys) = x @ sep @ str_join sep (y # ys)"

subsection \<open>The regular expression \<open>/\d{4}/\d{2}/\d{2}/\<close>\<close>

datatype atom = Lit char | Digit

definition is_digit :: "char \<Rightarrow> bool" where
  "is_digit c = (c \<in> set ''0123456789'')"

fun atom_matches :: "atom \<Rightarrow> char \<Rightarrow> bool" where
  "atom_matches (Lit a) c = (c = a)"
| "atom_matches Digit c = is_digit c"

text \<open>The pattern matches at the first position of the string.\<close>

fun match_prefix :: "atom list \<Rightarrow> string \<Rightarrow> bool" where
  "match_prefix [] s = True"
| "match_prefix (a # as) [] = False"
| "match_prefix (a # as) (c # cs) = (atom_matches a c \<and> match_prefix as cs)"

text \<open>\<open>pattern.search(s)\<close> as a truth value: the pattern matches at some position.\<close>

fun re_search :: "atom list \<Rightarrow> string \<Rightarrow> bool" where
  "re_search p [] = match_prefix p []"
| "re_search p (c # cs) = (match_prefix p (c # cs) \<or> re_search p cs)"

definition article_pattern :: "atom list" where
  "article_pattern =
     [Lit (CHR ''/''), Digit, Digit, Digit, Digit,
      Lit (CHR ''/''), Digit, Digit,
      Lit (CHR ''/''), Digit, Digit,
      Lit (CHR ''/'')]"

subsection \<open>Data\<close>

datatype exn = RequestException | ValueError | TypeError | OSError | OtherException

text \<open>
  An anchor element with an \<open>href\<close> attribute, as the loop of \<open>parse_main_page\<close> reads it:
  \<open>link.get("href")\<close> and \<open>link.get_text(strip=True)\<close>.
\<close>

record anchor =
  link_href :: string
  link_text :: string

text \<open>The dictionary \<open>{"title": ..., "url": ...}\<close> of \<open>parse_main_page\<close>.\<close>

record article_ref =
  ref_title :: string
  ref_url :: string

text \<open>The dictionary \<open>{"title": ..., "date": ..., "content": ..., "url": ...}\<close> of \<open>fetch_article\<close>.\<close>

record article =
  title :: string
  date :: string
  content :: string
  url :: string

text \<open>
  What \<open>fetch_article\<close> asks of the parsed article page: the \<open>.text\<close> of the first \<open>h1\<close>
  and of the first \<open>div\<close> of class \<open>timestamp vossi-timestamp\<close> (\<open>None\<close> when there is no
  such element), and \<open>get_text(strip=True)\<close> of every \<open>div\<close> of class \<open>paragraph__content\<close>
  and of every \<open>p\<close>, in document order.
\<close>

record article_page =
  h1_tag :: "string option"
  timestamp_tag :: "string option"
  paragraph_divs :: "string list"
  p_tags :: "string list"

record datetime =
  dt_year :: nat
  dt_month :: nat
  dt_day :: nat
  dt_hour :: nat
  dt_minute :: nat
  dt_second :: nat

text \<open>
  The library calls. \<open>session_get u\<close> is \<open>self.session.get(u, timeout=10)\<close> followed by
  \<open>raise_for_status()\<close>, giving \<open>response.text\<close>; \<open>strptime s\<close> is
  \<open>datetime.strptime(s, "Updated %I:%M %p %Z, %a %B %d, %Y")\<close>; \<open>as_completed\<close> gives the
  outcomes of the submitted futures in the order in which they complete;
  \<open>write_json f xs\<close> is \<open>open(f, 'w', encoding='utf-8')\<close> followed by \<open>json.dump\<close> of the
  articles into the file, which raises when the file cannot be opened or written.
\<close>

record library =
  session_get :: "string \<Rightarrow> exn + string"
  soup_anchors :: "string \<Rightarrow> anchor list"
  soup_article :: "string \<Rightarrow> article_page"
  strptime :: "string \<Rightarrow> exn + datetime"
  as_completed :: "(exn + article option) list \<Rightarrow> (exn + article option) list"
  write_json :: "string \<Rightarrow> article list \<Rightarrow> exn + unit"

subsection \<open>\<open>fetch_main_page\<close>\<close>

definition fetch_main_page :: "library \<Rightarrow> string \<Rightarrow> exn + string option" where
  "fetch_main_page lib base_url =
     (case session_get lib base_url of
        Inr response_text \<Rightarrow> Inr (Some response_text)
      | Inl e \<Rightarrow> (if e = RequestException then Inr None else Inl e))"

subsection \<open>\<open>parse_main_page\<close>\<close>

text \<open>The \<open>for\<close> loop over the anchors; the result is the list \<open>articles\<close> after the loop.\<close>

fun scan_links :: "string \<Rightarrow> anchor list \<Rightarrow> article_ref list" where
  "scan_links base_url [] = []"
| "scan_links base_url (link # links) =
     (let article_url = link_href link; ttl = link_text link in
      if str_contains ''Video'' ttl \<or> str_contains ''Gallery'' ttl
      then scan_links base_url links
      else if article_url \<noteq> [] \<and> re_search article_pattern article_url
      then (let article_url' =
                  (if startswith article_url ''/'' then base_url @ article_url else article_url)
            in if ttl \<noteq> []
               then \<lparr>ref_title = ttl, ref_url = article_url'\<rparr> # scan_links base_url links
               else scan_links base_url links)
      else scan_links base_url links)"

text \<open>
  A Python dictionary keeps its keys in the order of their first insertion; storing under
  a key that is present replaces the value and keeps the position.
\<close>

fun dict_set :: "('k \<times> 'v) list \<Rightarrow> 'k \<Rightarrow> 'v \<Rightarrow> ('k \<times> 'v) list" where
  "dict_set [] k v = [(k, v)]"
| "dict_set ((k', v') # d) k v =
     (if k' = k then (k, v) # d else (k', v') # dict_set d k v)"

text \<open>\<open>{article["url"]: article for article in articles}.values()\<close>\<close>

definition unique_articles :: "article_ref list \<Rightarrow> article_ref list" where
  "unique_articles articles = map snd (foldl (\<lambda>d a. dict_set d (ref_url a) a) [] articles)"

definition parse_main_page :: "library \<Rightarrow> string \<Rightarrow> string \<Rightarrow> article_ref list" where
  "parse_main_page lib base_url html_content =
     unique_articles (scan_links base_url (soup_anchors lib html_content))"

subsection \<open>\<open>fetch_article\<close>\<close>

definition digit_char :: "nat \<Rightarrow> char" where
  "digit_char d = ''0123456789'' ! d"

text \<open>The decimal digits of a number, as the \<open>%d\<close> of the C library prints them.\<close>

function dec :: "nat \<Rightarrow> string" where
  "dec n = (if n < 10 then [digit_char n] else dec (n div 10) @ [digit_char (n mod 10)])"
  by pat_completeness auto
termination
  by (relation "measure (\<lambda>n. n)") auto

declare dec.simps [simp del]

text \<open>\<open>%02d\<close>: at least two digits, a zero before a single one.\<close>

definition zfill2 :: "nat \<Rightarrow> string" where
  "zfill2 n = (if n < 10 then CHR ''0'' # dec n else dec n)"

text \<open>
  \<open>dt.strftime("%Y-%m-%d %H:%M:%S")\<close> as CPython gives it on Linux, where the C library
  formats the fields: \<open>%Y\<close> is the year in decimal without padding (\<open>999\<close> for the year 999),
  the other directives are numbers of two digits.
\<close>

definition strftime :: "datetime \<Rightarrow> string" where
  "strftime dt =
     dec (dt_year dt) @ ''-'' @ zfill2 (dt_month dt) @ ''-'' @ zfill2 (dt_day dt) @ '' '' @
     zfill2 (dt_hour dt) @ '':'' @ zfill2 (dt_minute dt) @ '':'' @ zfill2 (dt_second dt)"

text \<open>
  The inner \<open>try\<close> of \<open>fetch_article\<close>, from \<open>date_str\<close> to \<open>date\<close>: \<open>ValueError\<close> and
  \<open>TypeError\<close> are caught there, any other exception leaves the block.
\<close>

definition parse_date :: "library \<Rightarrow> string option \<Rightarrow> exn + string" where
  "parse_date lib date_str =
     (case date_str of
        None \<Rightarrow> Inr ''No Date Found''
      | Some s \<Rightarrow>
          (if s = [] then Inr ''No Date Found''
           else (case strptime lib s of
                   Inr dt \<Rightarrow> Inr (strftime dt)
                 | Inl e \<Rightarrow>
                     (if e = ValueError \<or> e = TypeError then Inr ''No Date Found''
                      else Inl e))))"

text \<open>From \<open>paragraphs\<close> to the final \<open>content\<close>.\<close>

definition page_content :: "article_page \<Rightarrow> string" where
  "page_content soup =
     (let paragraphs = (if paragraph_divs soup \<noteq> [] then paragraph_divs soup else p_tags soup);
          content0 = (if paragraphs \<noteq> [] then str_join [CHR 0x0A] paragraphs
                      else ''No Content Found'')
      in py_strip (str_remove ''Follow:'' content0))"

text \<open>
  The part of \<open>fetch_article\<close> that follows the fetch: from the parsing of
  \<open>response.text\<close> to the dictionary that is returned.
\<close>

definition extract_article :: "library \<Rightarrow> article_ref \<Rightarrow> string \<Rightarrow> exn + article" where
  "extract_article lib article_info response_text =
     (let soup = soup_article lib response_text;
          ttl = (case h1_tag soup of
                   Some t \<Rightarrow> py_strip t
                 | None \<Rightarrow> ref_title article_info);
          date_str = map_option py_strip (timestamp_tag soup)
      in case parse_date lib date_str of
           Inl e \<Rightarrow> Inl e
         | Inr d \<Rightarrow>
             Inr \<lparr>title = ttl, date = d, content = page_content soup,
                  url = ref_url article_info\<rparr>)"

text \<open>
  \<open>fetch_article\<close> returns a dictionary, or \<open>None\<close> after a \<open>RequestException\<close>, which the
  outer \<open>try\<close> catches wherever it is raised in the block.
\<close>

definition fetch_article :: "library \<Rightarrow> article_ref \<Rightarrow> exn + article option" where
  "fetch_article lib article_info =
     (case session_get lib (ref_url article_info) of
        Inl e \<Rightarrow> (if e = RequestException then Inr None else Inl e)
      | Inr response_text \<Rightarrow>
          (case extract_article lib article_info response_text of
             Inl e \<Rightarrow> (if e = RequestException then Inr None else Inl e)
           | Inr a \<Rightarrow> Inr (Some a)))"

subsection \<open>\<open>get_main_page_articles\<close>\<close>

text \<open>
  The loop over the completed futures: \<open>future.result()\<close> raises what the worker raised,
  and a result that is not \<open>None\<close> is appended to \<open>results\<close>.
\<close>

fun collect_results :: "(exn + article option) list \<Rightarrow> article list \<Rightarrow> exn + article list" where
  "collect_results [] results = Inr results"
| "collect_results (Inl e # futures) results = Inl e"
| "collect_results (Inr None # futures) results = collect_results futures results"
| "collect_results (Inr (Some r) # futures) results = collect_results futures (results @ [r])"

text \<open>
  \<open>ThreadPoolExecutor(max_workers=n)\<close> raises \<open>ValueError\<close> when \<open>n \<le> 0\<close>. The executor is
  created only when there are articles to fetch.
\<close>

definition get_main_page_articles :: "library \<Rightarrow> string \<Rightarrow> int \<Rightarrow> exn + article list" where
  "get_main_page_articles lib base_url threads =
     (case fetch_main_page lib base_url of
        Inl e \<Rightarrow> Inl e
      | Inr html_content \<Rightarrow>
          (if html_content \<noteq> None \<and> html_content \<noteq> Some []
           then (let articles = parse_main_page lib base_url (the html_content) in
                 if articles \<noteq> []
                 then (if threads \<le> 0 then Inl ValueError
                       else collect_results
                              (as_completed lib (map (fetch_article lib) articles)) [])
                 else Inr [])
           else Inr []))"

subsection \<open>\<open>main\<close>\<close>

datatype output_mode = Console | Json

text \<open>
  The parsed command line. \<open>arg_content_preview\<close> is \<open>preview_length\<close>: \<open>None\<close> for the
  choice \<open>all\<close>. The user agent only configures the session, which is a parameter here.
\<close>

record cli_args =
  arg_threads :: int
  arg_content_preview :: "nat option"
  arg_output :: output_mode
  arg_file :: "string option"

record run =
  exit_status :: nat
  printed :: "string list"
  saved :: "(string \<times> article list) option"

definition print_article :: "nat option \<Rightarrow> article \<Rightarrow> string list" where
  "print_article preview_length a =
     [''Title: '' @ title a,
      ''Date: '' @ date a,
      ''Content: '' @
        (case preview_length of
           None \<Rightarrow> content a
         | Some n \<Rightarrow> (if n \<noteq> 0 then take n (content a) @ ''...'' else content a)),
      ''URL: '' @ url a @ [CHR 0x0A]]"

text \<open>\<open>args.file or 'cnn_articles.json'\<close>\<close>

definition output_file :: "cli_args \<Rightarrow> string" where
  "output_file a =
     (case arg_file a of
        None \<Rightarrow> ''cnn_articles.json''
      | Some f \<Rightarrow> (if f = [] then ''cnn_articles.json'' else f))"

text \<open>
  An exception that nothing catches ends the interpreter with status 1, as \<open>sys.exit(1)\<close>
  does; returning from \<open>main\<close> ends it with status 0. Nothing catches what opening or
  writing the output file raises. \<open>printed\<close> holds the arguments of the \<open>print\<close> calls in
  the loop over the articles, \<open>saved\<close> the name of the file and the articles dumped into it
  when the dump has completed.
\<close>

definition main :: "library \<Rightarrow> cli_args \<Rightarrow> run" where
  "main lib a =
     (case get_main_page_articles lib ''https://www.cnn.com'' (arg_threads a) of
        Inl e \<Rightarrow> \<lparr>exit_status = 1, printed = [], saved = None\<rparr>
      | Inr articles \<Rightarrow>
          (if articles = [] then \<lparr>exit_status = 1, printed = [], saved = None\<rparr>
           else if arg_output a = Console
           then \<lparr>exit_status = 0,
                 printed = concat (map (print_article (arg_content_preview a)) articles),
                 saved = None\<rparr>
           else (case write_json lib (output_file a) articles of
                   Inl e \<Rightarrow> \<lparr>exit_status = 1, printed = [], saved = None\<rparr>
                 | Inr u \<Rightarrow>
                     \<lparr>exit_status = 0, printed = [],
                      saved = Some (output_file a, articles)\<rparr>)))"

subsection \<open>Vocabulary of the statements\<close>

text \<open>
  The conditions under which the loop of \<open>parse_main_page\<close> appends an entry for an
  anchor: no media label in its text, a date path in its target, a text that is not empty.
\<close>

definition passes_filters :: "anchor \<Rightarrow> bool" where
  "passes_filters a =
     (\<not> str_contains ''Video'' (link_text a) \<and> \<not> str_contains ''Gallery'' (link_text a) \<and>
      re_search article_pattern (link_href a) \<and> link_text a \<noteq> [])"

text \<open>The target of an anchor after the base URL has been put before a leading slash.\<close>

definition target_url :: "string \<Rightarrow> anchor \<Rightarrow> string" where
  "target_url base_url a =
     (if startswith (link_href a) ''/'' then base_url @ link_href a else link_href a)"

definition to_ref :: "string \<Rightarrow> anchor \<Rightarrow> article_ref" where
  "to_ref base_url a = \<lparr>ref_title = link_text a, ref_url = target_url base_url a\<rparr>"

definition media_label :: "anchor \<Rightarrow> bool" where
  "media_label a = (str_contains ''Video'' (link_text a) \<or> str_contains ''Gallery'' (link_text a))"

text \<open>A dictionary whose keys are distinct and are the URLs of their values.\<close>

definition keyed :: "(string \<times> article_ref) list \<Rightarrow> bool" where
  "keyed d = (distinct (map fst d) \<and> (\<forall>(k, v) \<in> set d. ref_url v = k))"

text \<open>The shape \<open>YYYY-MM-DD HH:MM:SS\<close>.\<close>

definition date_shape :: "atom list" where
  "date_shape =
     [Digit, Digit, Digit, Digit, Lit (CHR ''-''), Digit, Digit, Lit (CHR ''-''), Digit, Digit,
      Lit (CHR '' ''), Digit, Digit, Lit (CHR '':''), Digit, Digit, Lit (CHR '':''), Digit, Digit]"

text \<open>The ranges of the fields of a Python \<open>datetime\<close>.\<close>

definition valid_datetime :: "datetime \<Rightarrow> bool" where
  "valid_datetime dt =
     (1 \<le> dt_year dt \<and> dt_year dt \<le> 9999 \<and> 1 \<le> dt_month dt \<and> dt_month dt \<le> 12 \<and>
      1 \<le> dt_day dt \<and> dt_day dt \<le> 31 \<and> dt_hour dt < 24 \<and> dt_minute dt < 60 \<and>
      dt_second dt < 60)"

text \<open>
  What the loop over the completed futures appends for one future: the dictionary that the
  worker returned, if it returned one.
\<close>

definition outcome :: "exn + article option \<Rightarrow> article option" where
  "outcome f = (case f of Inl e \<Rightarrow> None | Inr r \<Rightarrow> r)"

subsection \<open>Example inputs\<close>

text \<open>
  A landing page with five anchors, two of them for the same article, one with a media
  label, one without a date path and one with an absolute target; the first article can
  be fetched, the other cannot. Three timestamps are parsed, and a file cannot be written
  into a directory that does not exist.
\<close>

definition example_anchors :: "anchor list" where
  "example_anchors =
     [\<lparr>link_href = ''/2024/03/15/foo-bar/index.html'', link_text = ''Foo Bar Story''\<rparr>,
      \<lparr>link_href = ''/2024/03/15/clip/index.html'', link_text = ''Video: a clip''\<rparr>,
      \<lparr>link_href = ''/2024/03/15/foo-bar/index.html'', link_text = ''Foo Bar, again''\<rparr>,
      \<lparr>link_href = ''/about'', link_text = ''About''\<rparr>,
      \<lparr>link_href = ''https://edition.example/2024/03/16/baz/'', link_text = ''Baz''\<rparr>]"

definition example_page :: article_page where
  "example_page =
     \<lparr>h1_tag = Some '' Foo Bar '',
      timestamp_tag = Some ''Updated 3:45 PM EST, Fri March 15, 2024'',
      paragraph_divs = [''First paragraph.'', ''Follow: second''],
      p_tags = []\<rparr>"

definition example_library :: library where
  "example_library =
     \<lparr>session_get = (\<lambda>u. if u = ''https://www.cnn.com'' then Inr ''<html>''
                         else if u = ''https://www.cnn.com/2024/03/15/foo-bar/index.html''
                         then Inr ''<article>''
                         else Inl RequestException),
      soup_anchors = (\<lambda>h. if h = ''<html>'' then example_anchors else []),
      soup_article = (\<lambda>t. example_page),
      strptime = (\<lambda>s. if s = ''Updated 3:45 PM EST, Fri March 15, 2024''
                      then Inr \<lparr>dt_year = 2024, dt_month = 3, dt_day = 15,
                                dt_hour = 15, dt_minute = 45, dt_second = 0\<rparr>
                      else if s = ''Updated 9:05 AM EST, Fri December 1, 2023''
                      then Inr \<lparr>dt_year = 2023, dt_month = 12, dt_day = 1,
                                dt_hour = 9, dt_minute = 5, dt_second = 0\<rparr>
                      else if s = ''Updated 3:45 PM UTC, Fri March 15, 0999''
                      then Inr \<lparr>dt_year = 999, dt_month = 3, dt_day = 15,
                                dt_hour = 15, dt_minute = 45, dt_second = 0\<rparr>
                      else Inl ValueError),
      as_completed = rev,
      write_json = (\<lambda>f xs. if f = ''/nonexistent-dir/out.json'' then Inl OSError
                             else Inr ())\<rparr>"

text \<open>
  Article pages: one whose only paragraph element has no text, and one with an unreadable
  timestamp and no paragraph element at all.
\<close>

definition empty_paragraph_page :: article_page where
  "empty_paragraph_page =
     \<lparr>h1_tag = None, timestamp_tag = None, paragraph_divs = [], p_tags = ['''']\<rparr>"

definition empty_paragraph_library :: library where
  "empty_paragraph_library = example_library\<lparr>soup_article := (\<lambda>t. empty_paragraph_page)\<rparr>"

definition no_paragraph_library :: library where
  "no_paragraph_library =
     example_library\<lparr>soup_article := (\<lambda>t. \<lparr>h1_tag = None, timestamp_tag = Some ''yesterday'', paragraph_divs = [], p_tags = []\<rparr>)\<rparr>"

text \<open>
  Article pages without a timestamp element, with a timestamp of another day, and with a
  timestamp in the year 999.
\<close>

definition undated_library :: library where
  "undated_library =
     example_library\<lparr>soup_article := (\<lambda>t. example_page\<lparr>timestamp_tag := None\<rparr>)\<rparr>"

definition morning_library :: library where
  "morning_library =
     example_library\<lparr>soup_article :=
       (\<lambda>t. example_page\<lparr>timestamp_tag := Some '' Updated 9:05 AM EST, Fri December 1, 2023 ''\<rparr>)\<rparr>"

definition old_library :: library where
  "old_library =
     example_library\<lparr>soup_article :=
       (\<lambda>t. example_page\<lparr>timestamp_tag := Some ''Updated 3:45 PM UTC, Fri March 15, 0999''\<rparr>)\<rparr>"

definition example_ref :: article_ref where
  "example_ref = \<lparr>ref_title = ''Foo Bar, again'',
       ref_url = ''https://www.cnn.com/2024/03/15/foo-bar/index.html''\<rparr>"

text \<open>
  Landing pages: one that cannot be fetched, one whose body is the empty string and one
  without anchors. Command lines for the console, for the default JSON file and for a
  JSON file that cannot be written, and the article that the example yields.
\<close>

definition unreachable_library :: library where
  "unreachable_library = example_library\<lparr>session_get := (\<lambda>u. Inl RequestException)\<rparr>"

definition blank_library :: library where
  "blank_library = example_library\<lparr>session_get := (\<lambda>u. Inr [])\<rparr>"

definition no_links_library :: library where
  "no_links_library = example_library\<lparr>soup_anchors := (\<lambda>h. [])\<rparr>"

definition example_args :: cli_args where
  "example_args =
     \<lparr>arg_threads = 10, arg_content_preview = Some 300, arg_output = Console, arg_file = None\<rparr>"

definition json_args :: cli_args where
  "json_args =
     \<lparr>arg_threads = 10, arg_content_preview = Some 300, arg_output = Json, arg_file = None\<rparr>"

definition bad_file_args :: cli_args where
  "bad_file_args =
     \<lparr>arg_threads = 10, arg_content_preview = Some 300, arg_output = Json,
      arg_file = Some ''/nonexistent-dir/out.json''\<rparr>"

definition example_article :: article where
  "example_article =
     \<lparr>title = ''Foo Bar'', date = ''2024-03-15 15:45:00'',
      content = ''First paragraph.'' @ [CHR 0x0A] @ '' second'',
      url = ''https://www.cnn.com/2024/03/15/foo-bar/index.html''\<rparr>"

section \<open>Link extraction\<close>

lemma re_search_append: "re_search p s \<Longrightarrow> re_search p (b @ s)"
  by (induction b) auto

lemma article_pattern_nonempty: "\<not> re_search article_pattern []"
  by (simp add: article_pattern_def)

lemma scan_links_eq: "scan_links base_url links = map (to_ref base_url) (filter passes_filters links)"
proof (induction links)
  case Nil
  show ?case by simp
next
  case (Cons a links)
  have "re_search article_pattern (link_href a) \<Longrightarrow> link_href a \<noteq> []"
    using article_pattern_nonempty by auto
  with Cons show ?case
    by (auto simp: passes_filters_def to_ref_def target_url_def Let_def)
qed

lemma map_of_dict_set: "map_of (dict_set d k v) = (map_of d)(k \<mapsto> v)"
  by (induction d k v rule: dict_set.induct) (auto simp: fun_eq_iff)

lemma keys_dict_set: "map fst (dict_set d k v) = (if k \<in> fst ` set d then map fst d else map fst d @ [k])"
  by (induction d k v rule: dict_set.induct) (auto)

lemma distinct_dict_set: "distinct (map fst d) \<Longrightarrow> distinct (map fst (dict_set d k v))"
  by (auto simp: keys_dict_set)

lemma set_dict_set: "set (dict_set d k v) \<subseteq> insert (k, v) (set d)"
  by (induction d k v rule: dict_set.induct) auto

lemma keyed_dict_set: "keyed d \<Longrightarrow> keyed (dict_set d (ref_url a) a)"
  unfolding keyed_def using set_dict_set[of d "ref_url a" a] distinct_dict_set[of d "ref_url a" a]
  by auto

lemma keyed_foldl: "keyed d \<Longrightarrow> keyed (foldl (\<lambda>d a. dict_set d (ref_url a) a) d xs)"
  by (induction xs arbitrary: d) (auto simp: keyed_dict_set)

lemma set_foldl: "snd ` set (foldl (\<lambda>d a. dict_set d (ref_url a) a) d xs) \<subseteq> snd ` set d \<union> set xs"
proof (induction xs arbitrary: d)
  case Nil show ?case by simp
next
  case (Cons a xs)
  have "snd ` set (dict_set d (ref_url a) a) \<subseteq> insert a (snd ` set d)"
    using set_dict_set[of d "ref_url a" a] by auto
  with Cons[of "dict_set d (ref_url a) a"] show ?case by auto
qed

lemma map_of_foldl:
  "map_of (foldl (\<lambda>d a. dict_set d (ref_url a) a) d xs) u =
     (case filter (\<lambda>a. ref_url a = u) xs of [] \<Rightarrow> map_of d u | y # ys \<Rightarrow> Some (last (y # ys)))"
proof (induction xs arbitrary: d)
  case Nil show ?case by simp
next
  case (Cons a xs)
  show ?case
    by (simp add: Cons map_of_dict_set split: list.splits)
qed

lemma keyed_filter:
  "keyed d \<Longrightarrow> filter (\<lambda>r. ref_url r = u) (map snd d) = (case map_of d u of None \<Rightarrow> [] | Some v \<Rightarrow> [v])"
proof (induction d)
  case Nil show ?case by simp
next
  case (Cons p d)
  obtain k v where p: "p = (k, v)" by (cases p)
  from Cons.prems have kd: "keyed d" and kv: "ref_url v = k" and nk: "k \<notin> fst ` set d"
    by (auto simp: keyed_def p)
  have none: "map_of d k = None" using nk by (simp add: map_of_eq_None_iff)
  show ?case
    using Cons.IH[OF kd] kv none by (auto simp: p)
qed

lemma unique_articles_filter:
  "filter (\<lambda>r. ref_url r = u) (unique_articles xs) =
     (if filter (\<lambda>a. ref_url a = u) xs = [] then [] else [last (filter (\<lambda>a. ref_url a = u) xs)])"
proof -
  have k: "keyed (foldl (\<lambda>d a. dict_set d (ref_url a) a) [] xs)"
    by (rule keyed_foldl) (simp add: keyed_def)
  show ?thesis
    unfolding unique_articles_def keyed_filter[OF k] map_of_foldl
    by (simp split: list.splits)
qed

lemma set_unique_articles: "set (unique_articles xs) \<subseteq> set xs"
  using set_foldl[of "[]" xs] by (simp add: unique_articles_def)

lemma example_links:
  "parse_main_page example_library ''https://www.cnn.com'' ''<html>'' =
     [\<lparr>ref_title = ''Foo Bar, again'',
       ref_url = ''https://www.cnn.com/2024/03/15/foo-bar/index.html''\<rparr>,
      \<lparr>ref_title = ''Baz'', ref_url = ''https://edition.example/2024/03/16/baz/''\<rparr>]"
  by code_simp

text \<open>
  Claim C5. When one or more anchors of the landing page (in particular two or more) pass
  the media-label, date-path and non-empty-text filters and have the same target URL after
  normalisation, link extraction returns exactly one reference for that URL, and its title
  is the text of the last of these anchors in traversal order.
\<close>

theorem dedup_last_wins:
  assumes "cands = filter (\<lambda>a. passes_filters a \<and> target_url base_url a = u) (soup_anchors lib html)"
      and "cands \<noteq> []"
  shows "filter (\<lambda>r. ref_url r = u) (parse_main_page lib base_url html) =
           [\<lparr>ref_title = link_text (last cands), ref_url = u\<rparr>]"
proof -
  let ?as = "soup_anchors lib html"
  have f: "filter (\<lambda>r. ref_url r = u) (map (to_ref base_url) (filter passes_filters ?as)) =
        map (to_ref base_url) cands"
    by (simp add: assms(1) filter_map o_def to_ref_def conj_commute)
  have l: "last (map (to_ref base_url) cands) = to_ref base_url (last cands)"
    using assms(2) by (simp add: last_map)
  have "target_url base_url (last cands) = u"
    using last_in_set[OF assms(2)] by (simp add: assms(1))
  then have t: "to_ref base_url (last cands) = \<lparr>ref_title = link_text (last cands), ref_url = u\<rparr>"
    by (simp add: to_ref_def)
  have ne: "map (to_ref base_url) cands \<noteq> []" using assms(2) by simp
  show ?thesis
    unfolding parse_main_page_def unique_articles_filter scan_links_eq f
    using ne l t by simp
qed

theorem dedup_last_wins_witness:
  "filter (\<lambda>a. passes_filters a \<and>
                target_url ''https://www.cnn.com'' a =
                  ''https://www.cnn.com/2024/03/15/foo-bar/index.html'')
     (soup_anchors example_library ''<html>'') =
     [\<lparr>link_href = ''/2024/03/15/foo-bar/index.html'', link_text = ''Foo Bar Story''\<rparr>,
      \<lparr>link_href = ''/2024/03/15/foo-bar/index.html'', link_text = ''Foo Bar, again''\<rparr>] \<and>
   filter (\<lambda>r. ref_url r = ''https://www.cnn.com/2024/03/15/foo-bar/index.html'')
     (parse_main_page example_library ''https://www.cnn.com'' ''<html>'') =
     [\<lparr>ref_title = ''Foo Bar, again'',
       ref_url = ''https://www.cnn.com/2024/03/15/foo-bar/index.html''\<rparr>]"
proof -
  let ?c = "[\<lparr>link_href = ''/2024/03/15/foo-bar/index.html'', link_text = ''Foo Bar Story''\<rparr>,
      \<lparr>link_href = ''/2024/03/15/foo-bar/index.html'', link_text = ''Foo Bar, again''\<rparr>]"
  have h: "?c = filter (\<lambda>a. passes_filters a \<and>
                target_url ''https://www.cnn.com'' a =
                  ''https://www.cnn.com/2024/03/15/foo-bar/index.html'')
     (soup_anchors example_library ''<html>'')"
    by (simp add: example_library_def example_anchors_def passes_filters_def target_url_def
          article_pattern_def is_digit_def)
  have n: "?c \<noteq> []" by simp
  have "filter (\<lambda>r. ref_url r = ''https://www.cnn.com/2024/03/15/foo-bar/index.html'')
     (parse_main_page example_library ''https://www.cnn.com'' ''<html>'') =
     [\<lparr>ref_title = ''Foo Bar, again'',
       ref_url = ''https://www.cnn.com/2024/03/15/foo-bar/index.html''\<rparr>]"
    using dedup_last_wins [OF h n] by simp
  with h [symmetric] show ?thesis by (rule conjI)
qed

text \<open>
  Claim C6. Every reference returned by link extraction has a URL in which the date-path
  pattern (slash, four digits, slash, two digits, slash, two digits, slash) matches at some
  position.
\<close>

theorem links_have_date_path:
  "\<forall>r \<in> set (parse_main_page lib base_url html). re_search article_pattern (ref_url r)"
proof
  fix r assume "r \<in> set (parse_main_page lib base_url html)"
  then have "r \<in> set (scan_links base_url (soup_anchors lib html))"
    using set_unique_articles by (auto simp: parse_main_page_def)
  then obtain a where a: "passes_filters a" and r: "r = to_ref base_url a"
    by (auto simp: scan_links_eq)
  from a have "re_search article_pattern (link_href a)" by (simp add: passes_filters_def)
  then show "re_search article_pattern (ref_url r)"
    by (simp add: r to_ref_def target_url_def re_search_append)
qed

theorem links_have_date_path_witness:
  "example_ref \<in> set (parse_main_page example_library ''https://www.cnn.com'' ''<html>'') \<and>
   re_search article_pattern (ref_url example_ref)"
proof -
  have m: "example_ref \<in> set (parse_main_page example_library ''https://www.cnn.com'' ''<html>'')"
    by (simp add: example_links example_ref_def)
  with links_have_date_path [of example_library "''https://www.cnn.com''" "''<html>''"]
  have "re_search article_pattern (ref_url example_ref)"
    by (rule bspec)
  with m show ?thesis by (rule conjI)
qed

text \<open>
  Claim C7. An anchor whose text contains \<open>Video\<close> or \<open>Gallery\<close> is excluded whatever its
  target is: no returned reference has a title containing either word, and the result is
  the one obtained from the landing page without these anchors.
\<close>

theorem media_links_excluded:
  "(\<forall>r \<in> set (parse_main_page lib base_url html).
        \<not> str_contains ''Video'' (ref_title r) \<and> \<not> str_contains ''Gallery'' (ref_title r)) \<and>
   parse_main_page lib base_url html =
     unique_articles (scan_links base_url (filter (\<lambda>a. \<not> media_label a) (soup_anchors lib html)))"
proof
  show "\<forall>r \<in> set (parse_main_page lib base_url html).
        \<not> str_contains ''Video'' (ref_title r) \<and> \<not> str_contains ''Gallery'' (ref_title r)"
  proof
    fix r assume "r \<in> set (parse_main_page lib base_url html)"
    then have "r \<in> set (scan_links base_url (soup_anchors lib html))"
      using set_unique_articles by (auto simp: parse_main_page_def)
    then obtain a where a: "passes_filters a" and r: "r = to_ref base_url a"
      by (auto simp: scan_links_eq)
    then show "\<not> str_contains ''Video'' (ref_title r) \<and> \<not> str_contains ''Gallery'' (ref_title r)"
      by (simp add: passes_filters_def to_ref_def)
  qed
next
  have "filter passes_filters (filter (\<lambda>a. \<not> media_label a) (soup_anchors lib html)) =
        filter passes_filters (soup_anchors lib html)"
    by (auto simp: passes_filters_def media_label_def intro: filter_cong)
  then show "parse_main_page lib base_url html =
     unique_articles (scan_links base_url (filter (\<lambda>a. \<not> media_label a) (soup_anchors lib html)))"
    by (simp add: parse_main_page_def scan_links_eq)
qed

theorem media_links_excluded_witness:
  "media_label (soup_anchors example_library ''<html>'' ! 1) \<and>
   example_ref \<in> set (parse_main_page example_library ''https://www.cnn.com'' ''<html>'') \<and>
   \<not> str_contains ''Video'' (ref_title example_ref) \<and>
   \<not> str_contains ''Gallery'' (ref_title example_ref) \<and>
   parse_main_page example_library ''https://www.cnn.com'' ''<html>'' =
     unique_articles (scan_links ''https://www.cnn.com''
       (filter (\<lambda>a. \<not> media_label a) (soup_anchors example_library ''<html>'')))"
proof -
  have l: "media_label (soup_anchors example_library ''<html>'' ! 1)"
    by (simp add: example_library_def example_anchors_def media_label_def)
  have m: "example_ref \<in> set (parse_main_page example_library ''https://www.cnn.com'' ''<html>'')"
    by (simp add: example_links example_ref_def)
  note excluded = media_links_excluded [of example_library "''https://www.cnn.com''" "''<html>''"]
  from excluded m
  have t: "\<not> str_contains ''Video'' (ref_title example_ref) \<and>
           \<not> str_contains ''Gallery'' (ref_title example_ref)"
    by blast
  from excluded
  have e: "parse_main_page example_library ''https://www.cnn.com'' ''<html>'' =
     unique_articles (scan_links ''https://www.cnn.com''
       (filter (\<lambda>a. \<not> media_label a) (soup_anchors example_library ''<html>'')))"
    by (rule conjunct2)
  from l m t e show ?thesis by blast
qed

section \<open>Article extraction\<close>

lemma is_digit_digit_char: "d < 10 \<Longrightarrow> is_digit (digit_char d)"
proof -
  assume "d < 10"
  then have "d < length ''0123456789''" by simp
  then have "''0123456789'' ! d \<in> set ''0123456789''" by (rule nth_mem)
  then show ?thesis by (simp only: is_digit_def digit_char_def)
qed

lemma dec_small: "n < 10 \<Longrightarrow> dec n = [digit_char n]"
  by (subst dec.simps) simp

lemma dec_large: "10 \<le> n \<Longrightarrow> dec n = dec (n div 10) @ [digit_char (n mod 10)]"
  by (subst dec.simps) simp

lemma dec_nonempty: "dec n \<noteq> []"
  by (subst dec.simps) simp

lemma zfill2_two: "n < 100 \<Longrightarrow> zfill2 n = [digit_char (n div 10), digit_char (n mod 10)]"
proof (cases "n < 10")
  case True
  then show ?thesis by (simp add: zfill2_def dec_small digit_char_def)
next
  case False
  assume "n < 100"
  with False have "10 \<le> n" and "n div 10 < 10" by simp_all
  with False show ?thesis by (simp add: zfill2_def dec_large dec_small)
qed

lemma dec_four:
  assumes "1000 \<le> n" and "n < 10000"
  shows "dec n = [digit_char (n div 1000), digit_char (n div 100 mod 10),
                  digit_char (n div 10 mod 10), digit_char (n mod 10)]"
proof -
  have a: "10 \<le> n" "10 \<le> n div 10" "10 \<le> n div 10 div 10" "n div 10 div 10 div 10 < 10"
    using assms by simp_all
  have b: "n div 10 div 10 = n div 100" "n div 100 div 10 = n div 1000"
    by (simp_all add: div_mult2_eq [symmetric])
  have "dec n = [digit_char (n div 10 div 10 div 10), digit_char (n div 10 div 10 mod 10),
                 digit_char (n div 10 mod 10), digit_char (n mod 10)]"
    by (simp only: dec_large [OF a(1)] dec_large [OF a(2)] dec_large [OF a(3)]
          dec_small [OF a(4)] append.simps)
  then show ?thesis by (simp only: b)
qed

lemma strftime_nonempty: "strftime dt \<noteq> []"
  by (simp add: strftime_def dec_nonempty)

lemma strftime_shape:
  assumes "valid_datetime dt" and "1000 \<le> dt_year dt"
  shows "match_prefix date_shape (strftime dt) \<and> length (strftime dt) = 19"
proof -
  from assms have y: "dt_year dt < 10000" and f: "dt_month dt < 100" "dt_day dt < 100"
      "dt_hour dt < 100" "dt_minute dt < 100" "dt_second dt < 100"
    by (simp_all add: valid_datetime_def)
  have d: "\<And>k. k < 100 \<Longrightarrow> is_digit (digit_char (k div 10))"
          "\<And>k. is_digit (digit_char (k mod 10))"
    by (simp_all add: is_digit_digit_char)
  have "is_digit (digit_char (dt_year dt div 1000))"
    using y by (simp add: is_digit_digit_char)
  then show ?thesis
    by (simp add: strftime_def dec_four [OF assms(2) y] zfill2_two f d date_shape_def)
qed

lemma parse_date_cases:
  assumes "\<forall>s e. strptime lib s = Inl e \<longrightarrow> e = ValueError \<or> e = TypeError"
  shows "parse_date lib ds = Inr ''No Date Found'' \<or>
         (\<exists>s dt. ds = Some s \<and> s \<noteq> [] \<and> strptime lib s = Inr dt \<and> parse_date lib ds = Inr (strftime dt))"
  using assms by (auto simp: parse_date_def split: option.splits sum.splits)

lemma example_strptime:
  "\<forall>s e. strptime example_library s = Inl e \<longrightarrow> e = ValueError \<or> e = TypeError"
  by (simp add: example_library_def)

lemma example_extract:
  "extract_article example_library example_ref ''<article>'' =
     Inr \<lparr>title = ''Foo Bar'', date = ''2024-03-15 15:45:00'',
          content = ''First paragraph.'' @ [CHR 0x0A] @ '' second'',
          url = ''https://www.cnn.com/2024/03/15/foo-bar/index.html''\<rparr>"
  by code_simp

lemma no_paragraph_extract:
  "extract_article no_paragraph_library example_ref ''<article>'' =
     Inr \<lparr>title = ''Foo Bar, again'', date = ''No Date Found'', content = ''No Content Found'',
          url = ''https://www.cnn.com/2024/03/15/foo-bar/index.html''\<rparr>"
  by code_simp

lemma morning_strptime:
  "\<forall>s e. strptime morning_library s = Inl e \<longrightarrow> e = ValueError \<or> e = TypeError"
  by (simp add: morning_library_def example_library_def)

lemma undated_strptime:
  "\<forall>s e. strptime undated_library s = Inl e \<longrightarrow> e = ValueError \<or> e = TypeError"
  by (simp add: undated_library_def example_library_def)

lemma no_paragraph_strptime:
  "\<forall>s e. strptime no_paragraph_library s = Inl e \<longrightarrow> e = ValueError \<or> e = TypeError"
  by (simp add: no_paragraph_library_def example_library_def)

lemma morning_extract:
  "extract_article morning_library example_ref ''<article>'' =
     Inr (example_article\<lparr>date := ''2023-12-01 09:05:00''\<rparr>)"
  by code_simp

text \<open>
  Claim C4, as the code has it. Article extraction does not raise on a missing or malformed
  timestamp. When \<open>strptime\<close> raises nothing but the \<open>ValueError\<close> (or \<open>TypeError\<close>) with which
  it rejects its input, extraction returns an article whose date is not empty and is either
  the sentinel \<open>No Date Found\<close> or the parsed timestamp as \<open>strftime\<close> formats it: the year in
  decimal, without padding, then month, day, hour, minute and second with two digits each.
  The date is the sentinel when the timestamp element is absent, when its text is empty
  and when parsing fails; it is the formatted timestamp when a non-empty text is parsed,
  and this has the form \<open>YYYY-MM-DD HH:MM:SS\<close> when the year is 1000 or later.
\<close>

theorem date_never_raises:
  assumes "\<forall>s e. strptime lib s = Inl e \<longrightarrow> e = ValueError \<or> e = TypeError"
  shows "\<exists>a. extract_article lib article_info response_text = Inr a \<and> date a \<noteq> [] \<and>
           (date a = ''No Date Found'' \<or>
            (\<exists>t dt. timestamp_tag (soup_article lib response_text) = Some t \<and>
                    strptime lib (py_strip t) = Inr dt \<and>
                    date a = dec (dt_year dt) @ ''-'' @ zfill2 (dt_month dt) @ ''-'' @ zfill2 (dt_day dt) @
                      '' '' @ zfill2 (dt_hour dt) @ '':'' @ zfill2 (dt_minute dt) @ '':'' @
                      zfill2 (dt_second dt))) \<and>
           (timestamp_tag (soup_article lib response_text) = None \<longrightarrow> date a = ''No Date Found'') \<and>
           (\<forall>t. timestamp_tag (soup_article lib response_text) = Some t \<and> py_strip t = [] \<longrightarrow>
                  date a = ''No Date Found'') \<and>
           (\<forall>t e. timestamp_tag (soup_article lib response_text) = Some t \<and>
                  strptime lib (py_strip t) = Inl e \<longrightarrow> date a = ''No Date Found'') \<and>
           (\<forall>t dt. timestamp_tag (soup_article lib response_text) = Some t \<and> py_strip t \<noteq> [] \<and>
                  strptime lib (py_strip t) = Inr dt \<longrightarrow>
                  date a = dec (dt_year dt) @ ''-'' @ zfill2 (dt_month dt) @ ''-'' @ zfill2 (dt_day dt) @
                      '' '' @ zfill2 (dt_hour dt) @ '':'' @ zfill2 (dt_minute dt) @ '':'' @
                      zfill2 (dt_second dt) \<and>
                  (valid_datetime dt \<and> 1000 \<le> dt_year dt \<longrightarrow>
                     match_prefix date_shape (date a) \<and> length (date a) = 19))"
proof -
  let ?soup = "soup_article lib response_text"
  let ?ds = "map_option py_strip (timestamp_tag ?soup)"
  from parse_date_cases[OF assms, of ?ds]
  obtain d where d: "parse_date lib ?ds = Inr d" by auto
  have "d = ''No Date Found'' \<or> (\<exists>dt. d = strftime dt)"
    using parse_date_cases[OF assms, of ?ds] d by auto
  then have ne: "d \<noteq> []"
    using strftime_nonempty by (metis list.distinct(1))
  have a: "extract_article lib article_info response_text =
             Inr \<lparr>title = (case h1_tag ?soup of Some t \<Rightarrow> py_strip t | None \<Rightarrow> ref_title article_info),
                  date = d, content = page_content ?soup, url = ref_url article_info\<rparr>"
    by (simp add: extract_article_def Let_def d)
  have c1: "d = ''No Date Found'' \<or>
            (\<exists>t dt. timestamp_tag ?soup = Some t \<and> strptime lib (py_strip t) = Inr dt \<and>
                    d = strftime dt)"
    using parse_date_cases[OF assms, of ?ds] d by auto
  have c2: "timestamp_tag ?soup = None \<longrightarrow> d = ''No Date Found''"
    using d by (auto simp: parse_date_def)
  have c2': "\<forall>t. timestamp_tag ?soup = Some t \<and> py_strip t = [] \<longrightarrow> d = ''No Date Found''"
    using d by (auto simp: parse_date_def)
  have c3: "\<forall>t e. timestamp_tag ?soup = Some t \<and> strptime lib (py_strip t) = Inl e \<longrightarrow>
              d = ''No Date Found''"
    using d assms by (auto simp: parse_date_def split: if_splits)
  have c4: "\<forall>t dt. timestamp_tag ?soup = Some t \<and> py_strip t \<noteq> [] \<and>
              strptime lib (py_strip t) = Inr dt \<longrightarrow>
              d = strftime dt \<and>
              (valid_datetime dt \<and> 1000 \<le> dt_year dt \<longrightarrow>
                 match_prefix date_shape d \<and> length d = 19)"
    using d strftime_shape by (auto simp: parse_date_def)
  show ?thesis
    unfolding a using ne c1 c2 c2' c3 c4 by (simp add: strftime_def)
qed

theorem date_never_raises_witness:
  "(\<exists>a. extract_article example_library example_ref ''<article>'' = Inr a \<and>
        date a = ''2024-03-15 15:45:00'') \<and>
   (\<exists>a. extract_article morning_library example_ref ''<article>'' = Inr a \<and>
        date a = ''2023-12-01 09:05:00'') \<and>
   timestamp_tag (soup_article undated_library ''<article>'') = None \<and>
   (\<exists>a. extract_article undated_library example_ref ''<article>'' = Inr a \<and>
        date a = ''No Date Found'') \<and>
   timestamp_tag (soup_article no_paragraph_library ''<article>'') = Some ''yesterday'' \<and>
   strptime no_paragraph_library (py_strip ''yesterday'') = Inl ValueError \<and>
   (\<exists>a. extract_article no_paragraph_library example_ref ''<article>'' = Inr a \<and>
        date a = ''No Date Found'')"
proof -
  from date_never_raises [OF example_strptime, of example_ref "''<article>''"]
  obtain a where "extract_article example_library example_ref ''<article>'' = Inr a"
    by blast
  then have w1: "\<exists>a. extract_article example_library example_ref ''<article>'' = Inr a \<and>
        date a = ''2024-03-15 15:45:00''"
    by (auto simp: example_extract)
  from date_never_raises [OF morning_strptime, of example_ref "''<article>''"]
  obtain b where "extract_article morning_library example_ref ''<article>'' = Inr b"
    by blast
  then have w2: "\<exists>a. extract_article morning_library example_ref ''<article>'' = Inr a \<and>
        date a = ''2023-12-01 09:05:00''"
    by (auto simp: morning_extract)
  have t3: "timestamp_tag (soup_article undated_library ''<article>'') = None"
    by (simp add: undated_library_def example_page_def)
  with date_never_raises [OF undated_strptime, of example_ref "''<article>''"]
  have w3: "\<exists>a. extract_article undated_library example_ref ''<article>'' = Inr a \<and>
        date a = ''No Date Found''"
    by blast
  have t4: "timestamp_tag (soup_article no_paragraph_library ''<article>'') = Some ''yesterday''"
    by (simp add: no_paragraph_library_def)
  have s4: "strptime no_paragraph_library (py_strip ''yesterday'') = Inl ValueError"
    by (simp add: no_paragraph_library_def example_library_def py_strip_def py_isspace_def)
  from date_never_raises [OF no_paragraph_strptime, of example_ref "''<article>''"] t4 s4
  have w4: "\<exists>a. extract_article no_paragraph_library example_ref ''<article>'' = Inr a \<and>
        date a = ''No Date Found''"
    by blast
  from w1 w2 t3 w3 t4 s4 w4 show ?thesis by blast
qed

text \<open>
  Claim C4, as stated, fails: a timestamp in the year 999 is parsed, and the date is
  \<open>999-03-15 15:45:00\<close>, which has eighteen characters and not the form
  \<open>YYYY-MM-DD HH:MM:SS\<close>.
\<close>

theorem short_year_counterexample:
  "timestamp_tag (soup_article old_library ''<article>'') =
     Some ''Updated 3:45 PM UTC, Fri March 15, 0999'' \<and>
   extract_article old_library example_ref ''<article>'' =
     Inr (example_article\<lparr>date := ''999-03-15 15:45:00''\<rparr>) \<and>
   length ''999-03-15 15:45:00'' = 18 \<and>
   \<not> match_prefix date_shape ''999-03-15 15:45:00''"
  by code_simp

lemma py_strip_trimmed:
  assumes "py_strip s \<noteq> []"
  shows "\<not> py_isspace (hd (py_strip s)) \<and> \<not> py_isspace (last (py_strip s))"
proof -
  define t where "t = dropWhile py_isspace s"
  define u where "u = dropWhile py_isspace (rev t)"
  have ps: "py_strip s = rev u"
    by (simp add: py_strip_def t_def u_def)
  with assms have un: "u \<noteq> []" by simp
  have "rev t = takeWhile py_isspace (rev t) @ u"
    by (simp add: u_def)
  then have "last (rev t) = last u"
    using un by (metis last_appendR)
  moreover have tn: "t \<noteq> []"
    using un by (auto simp: u_def)
  ultimately have "last u = hd t"
    by (simp add: last_rev)
  moreover have "\<not> py_isspace (hd t)"
    using tn unfolding t_def by (rule hd_dropWhile)
  moreover have "\<not> py_isspace (hd u)"
    using un unfolding u_def by (rule hd_dropWhile)
  ultimately show ?thesis
    by (simp add: ps hd_rev last_rev)
qed

lemma str_remove_absent: "\<not> str_contains old s \<Longrightarrow> str_remove old s = s"
proof (induction s)
  case Nil
  then show ?case by (subst str_remove.simps) (cases old, simp_all)
next
  case (Cons c cs)
  then have "\<not> startswith (c # cs) old" and "str_remove old cs = cs" by simp_all
  then show ?case by (subst str_remove.simps) simp
qed

text \<open>
  Claim C3, as the code has it. The body is the sentinel \<open>No Content Found\<close> when no
  paragraph-content element and no generic paragraph element matches. When some element
  matches, the body is the texts of the paragraph-content elements (of the generic
  paragraph elements when there is no paragraph-content element) joined with newlines,
  with the occurrences of \<open>Follow:\<close> removed and the surrounding whitespace trimmed; this
  text may be empty. In both cases the body neither begins nor ends with whitespace.
\<close>

theorem body_of_article:
  assumes "extract_article lib article_info response_text = Inr a"
  shows "content a =
           (if paragraph_divs (soup_article lib response_text) = [] \<and>
               p_tags (soup_article lib response_text) = []
            then ''No Content Found''
            else py_strip (str_remove ''Follow:'' (str_join [CHR 0x0A]
                   (if paragraph_divs (soup_article lib response_text) \<noteq> []
                    then paragraph_divs (soup_article lib response_text)
                    else p_tags (soup_article lib response_text))))) \<and>
         (content a = [] \<or>
          \<not> py_isspace (hd (content a)) \<and> \<not> py_isspace (last (content a)))"
proof -
  have "str_remove ''Follow:'' ''No Content Found'' = ''No Content Found''"
    by (rule str_remove_absent) simp
  then have s: "py_strip (str_remove ''Follow:'' ''No Content Found'') = ''No Content Found''"
    by (simp add: py_strip_def py_isspace_def)
  from assms have c: "content a = page_content (soup_article lib response_text)"
    by (auto simp: extract_article_def Let_def split: sum.splits)
  then have "content a =
           (if paragraph_divs (soup_article lib response_text) = [] \<and>
               p_tags (soup_article lib response_text) = []
            then ''No Content Found''
            else py_strip (str_remove ''Follow:'' (str_join [CHR 0x0A]
                   (if paragraph_divs (soup_article lib response_text) \<noteq> []
                    then paragraph_divs (soup_article lib response_text)
                    else p_tags (soup_article lib response_text)))))"
    by (simp add: page_content_def Let_def s)
  moreover have "\<exists>x. content a = py_strip x"
    unfolding c page_content_def Let_def by blast
  then have "content a = [] \<or>
          \<not> py_isspace (hd (content a)) \<and> \<not> py_isspace (last (content a))"
    using py_strip_trimmed by metis
  ultimately show ?thesis by (rule conjI)
qed

theorem body_of_article_witness:
  "extract_article no_paragraph_library example_ref ''<article>'' =
     Inr \<lparr>title = ''Foo Bar, again'', date = ''No Date Found'', content = ''No Content Found'',
          url = ''https://www.cnn.com/2024/03/15/foo-bar/index.html''\<rparr> \<and>
   paragraph_divs (soup_article no_paragraph_library ''<article>'') = [] \<and>
   p_tags (soup_article no_paragraph_library ''<article>'') = [] \<and>
   extract_article example_library example_ref ''<article>'' = Inr example_article \<and>
   content example_article =
     py_strip (str_remove ''Follow:'' (str_join [CHR 0x0A] [''First paragraph.'', ''Follow: second'']))"
proof -
  have n: "paragraph_divs (soup_article no_paragraph_library ''<article>'') = []"
          "p_tags (soup_article no_paragraph_library ''<article>'') = []"
    by (simp_all add: no_paragraph_library_def)
  have e: "extract_article example_library example_ref ''<article>'' = Inr example_article"
    by (simp add: example_extract example_article_def)
  have p: "paragraph_divs (soup_article example_library ''<article>'') =
             [''First paragraph.'', ''Follow: second'']"
    by (simp add: example_library_def example_page_def)
  from body_of_article [OF e]
  have "content example_article =
     py_strip (str_remove ''Follow:'' (str_join [CHR 0x0A] [''First paragraph.'', ''Follow: second'']))"
    unfolding p by simp
  with no_paragraph_extract n e show ?thesis by blast
qed

text \<open>
  Claim C3, as stated, fails: a page whose only paragraph element has no text gives an
  empty assembled text, and the body is the empty string, not the sentinel.
\<close>

theorem empty_body_counterexample:
  "str_join [CHR 0x0A] (p_tags (soup_article empty_paragraph_library ''<article>'')) = [] \<and>
   extract_article empty_paragraph_library example_ref ''<article>'' =
     Inr \<lparr>title = ''Foo Bar, again'', date = ''No Date Found'', content = [],
          url = ''https://www.cnn.com/2024/03/15/foo-bar/index.html''\<rparr> \<and>
   page_content (soup_article empty_paragraph_library ''<article>'') \<noteq> ''No Content Found''"
  by code_simp

section \<open>The crawl\<close>

lemma collect_results_all_returned:
  "\<forall>f \<in> set futures. \<not> isl f \<Longrightarrow>
     collect_results futures results = Inr (results @ List.map_filter outcome futures)"
proof (induction futures results rule: collect_results.induct)
  case (1 results)
  show ?case by (simp add: List.map_filter_simps)
next
  case (2 e futures results)
  then show ?case by simp
next
  case (3 futures results)
  then show ?case by (simp add: List.map_filter_simps outcome_def)
next
  case (4 r futures results)
  then show ?case by (simp add: List.map_filter_simps outcome_def)
qed

lemma mset_map_filter:
  "mset (List.map_filter g xs) = image_mset (the \<circ> g) (filter_mset (\<lambda>x. g x \<noteq> None) (mset xs))"
  by (simp add: List.map_filter_def)

lemma mset_map_filter_cong:
  "mset xs = mset ys \<Longrightarrow> mset (List.map_filter g xs) = mset (List.map_filter g ys)"
  by (simp add: mset_map_filter)

lemma fetch_article_failed:
  "session_get lib (ref_url r) = Inl RequestException \<Longrightarrow> fetch_article lib r = Inr None"
  by (simp add: fetch_article_def)

lemma extract_article_returns:
  assumes "\<forall>s e. strptime lib s = Inl e \<longrightarrow> e = ValueError \<or> e = TypeError"
  shows "\<exists>a. extract_article lib r t = Inr a \<and> url a = ref_url r"
proof -
  obtain d where "parse_date lib (map_option py_strip (timestamp_tag (soup_article lib t))) = Inr d"
    using parse_date_cases [OF assms] by blast
  then show ?thesis by (simp add: extract_article_def Let_def)
qed

lemma fetch_article_fetched:
  assumes "\<forall>s e. strptime lib s = Inl e \<longrightarrow> e = ValueError \<or> e = TypeError"
    and "session_get lib (ref_url r) = Inr t"
  shows "\<exists>a. extract_article lib r t = Inr a \<and> fetch_article lib r = Inr (Some a) \<and> url a = ref_url r"
  using extract_article_returns [OF assms(1), of r t] assms(2)
  by (auto simp: fetch_article_def)

lemma length_map_filter: "length (List.map_filter g xs) = length (filter (\<lambda>x. g x \<noteq> None) xs)"
  by (simp add: List.map_filter_def)

lemma example_crawl:
  "get_main_page_articles example_library ''https://www.cnn.com'' 10 = Inr [example_article]"
  by code_simp

lemma example_perm: "\<forall>fs. mset (as_completed example_library fs) = mset fs"
  by (simp add: example_library_def)

lemma example_landing: "session_get example_library ''https://www.cnn.com'' = Inr ''<html>''"
  by (simp add: example_library_def)

lemma example_requests:
  "\<forall>r \<in> set (parse_main_page example_library ''https://www.cnn.com'' ''<html>'').
     \<forall>e. session_get example_library (ref_url r) = Inl e \<longrightarrow> e = RequestException"
  unfolding example_links by (simp add: example_library_def)

text \<open>
  Claim C1. Take a crawl with a positive number of threads whose landing page is fetched,
  in which an article fetch fails only with a \<open>RequestException\<close> (network error, timeout,
  status that is not a success), \<open>strptime\<close> raises only \<open>ValueError\<close> or \<open>TypeError\<close>, and
  every future completes once. Then the worker of a link whose fetch fails returns \<open>None\<close>
  and raises nothing, the worker of a link whose fetch succeeds returns the extracted
  article, and the crawl returns, in some order, exactly the articles of the links whose
  fetch succeeded: one for each of them, none for the others.
\<close>

theorem failed_fetches_dropped:
  assumes strp: "\<forall>s e. strptime lib s = Inl e \<longrightarrow> e = ValueError \<or> e = TypeError"
      and perm: "\<forall>fs. mset (as_completed lib fs) = mset fs"
      and landing: "session_get lib base_url = Inr html" "html \<noteq> []"
      and links: "links = parse_main_page lib base_url html"
      and req: "\<forall>r \<in> set links. \<forall>e. session_get lib (ref_url r) = Inl e \<longrightarrow> e = RequestException"
      and thr: "0 < threads"
  shows "(\<forall>r \<in> set links. isl (session_get lib (ref_url r)) \<longrightarrow> fetch_article lib r = Inr None) \<and>
         (\<forall>r \<in> set links. \<forall>t. session_get lib (ref_url r) = Inr t \<longrightarrow>
            (\<exists>a. extract_article lib r t = Inr a \<and> fetch_article lib r = Inr (Some a) \<and>
                 url a = ref_url r)) \<and>
         (\<exists>results. get_main_page_articles lib base_url threads = Inr results \<and>
            mset results = mset (List.map_filter (\<lambda>r. outcome (fetch_article lib r)) links) \<and>
            length results = length (filter (\<lambda>r. \<not> isl (session_get lib (ref_url r))) links))"
proof (intro conjI)
  show failed: "\<forall>r \<in> set links. isl (session_get lib (ref_url r)) \<longrightarrow> fetch_article lib r = Inr None"
  proof (intro ballI impI)
    fix r assume "r \<in> set links" and "isl (session_get lib (ref_url r))"
    then have "session_get lib (ref_url r) = Inl RequestException"
      using req by (cases "session_get lib (ref_url r)") auto
    then show "fetch_article lib r = Inr None" by (rule fetch_article_failed)
  qed
  show fetched: "\<forall>r \<in> set links. \<forall>t. session_get lib (ref_url r) = Inr t \<longrightarrow>
            (\<exists>a. extract_article lib r t = Inr a \<and> fetch_article lib r = Inr (Some a) \<and>
                 url a = ref_url r)"
    using fetch_article_fetched [OF strp] by blast
  let ?futures = "map (fetch_article lib) links"
  have returned: "\<forall>r \<in> set links. \<not> isl (fetch_article lib r)"
  proof
    fix r assume r: "r \<in> set links"
    show "\<not> isl (fetch_article lib r)"
    proof (cases "session_get lib (ref_url r)")
      case (Inl e)
      with failed r show ?thesis by simp
    next
      case (Inr t)
      with fetched r obtain a where "fetch_article lib r = Inr (Some a)" by blast
      then show ?thesis by simp
    qed
  qed
  have some_iff: "\<forall>r \<in> set links. outcome (fetch_article lib r) \<noteq> None \<longleftrightarrow>
                    \<not> isl (session_get lib (ref_url r))"
  proof
    fix r assume r: "r \<in> set links"
    show "outcome (fetch_article lib r) \<noteq> None \<longleftrightarrow> \<not> isl (session_get lib (ref_url r))"
    proof (cases "session_get lib (ref_url r)")
      case (Inl e)
      with failed r show ?thesis by (simp add: outcome_def)
    next
      case (Inr t)
      with fetched r obtain a where "fetch_article lib r = Inr (Some a)" by blast
      with Inr show ?thesis by (simp add: outcome_def)
    qed
  qed
  have m: "mset (as_completed lib ?futures) = mset ?futures"
    using perm by blast
  then have "set (as_completed lib ?futures) = set ?futures"
    by (rule mset_eq_setD)
  with returned have "\<forall>f \<in> set (as_completed lib ?futures). \<not> isl f"
    by auto
  then have c: "collect_results (as_completed lib ?futures) [] =
                  Inr (List.map_filter outcome (as_completed lib ?futures))"
    using collect_results_all_returned [of "as_completed lib ?futures" "[]"] by simp
  have g: "get_main_page_articles lib base_url threads =
             Inr (List.map_filter outcome (as_completed lib ?futures))"
  proof (cases "links = []")
    case True
    then have "?futures = []" by simp
    with m have "as_completed lib ?futures = []" by simp
    with True show ?thesis
      using landing links
      by (simp add: get_main_page_articles_def fetch_main_page_def List.map_filter_simps)
  next
    case False
    then show ?thesis
      using landing links thr c
      by (simp add: get_main_page_articles_def fetch_main_page_def Let_def)
  qed
  have e1: "mset (List.map_filter outcome (as_completed lib ?futures)) =
          mset (List.map_filter outcome ?futures)"
    using m by (rule mset_map_filter_cong)
  have e2: "List.map_filter outcome ?futures = List.map_filter (\<lambda>r. outcome (fetch_article lib r)) links"
    by (simp add: List.map_filter_def filter_map o_def)
  have "length (List.map_filter (\<lambda>r. outcome (fetch_article lib r)) links) =
        length (filter (\<lambda>r. \<not> isl (session_get lib (ref_url r))) links)"
    unfolding length_map_filter using some_iff by (metis (mono_tags, lifting) filter_cong)
  moreover have "length (List.map_filter outcome (as_completed lib ?futures)) =
        length (List.map_filter (\<lambda>r. outcome (fetch_article lib r)) links)"
    using e1 e2 by (metis size_mset)
  ultimately show "\<exists>results. get_main_page_articles lib base_url threads = Inr results \<and>
            mset results = mset (List.map_filter (\<lambda>r. outcome (fetch_article lib r)) links) \<and>
            length results = length (filter (\<lambda>r. \<not> isl (session_get lib (ref_url r))) links)"
    using g e1 e2 by simp
qed

theorem failed_fetches_dropped_witness:
  "isl (session_get example_library ''https://edition.example/2024/03/16/baz/'') \<and>
   fetch_article example_library
     \<lparr>ref_title = ''Baz'', ref_url = ''https://edition.example/2024/03/16/baz/''\<rparr> = Inr None \<and>
   (\<exists>results. get_main_page_articles example_library ''https://www.cnn.com'' 10 = Inr results \<and>
      length results = 1)"
proof -
  have h: "''<html>'' \<noteq> []" "(0::int) < 10" by simp_all
  have l: "parse_main_page example_library ''https://www.cnn.com'' ''<html>'' =
           parse_main_page example_library ''https://www.cnn.com'' ''<html>''" by simp
  have f: "isl (session_get example_library ''https://edition.example/2024/03/16/baz/'')"
    by (simp add: example_library_def)
  have n: "length (filter (\<lambda>r. \<not> isl (session_get example_library (ref_url r)))
             (parse_main_page example_library ''https://www.cnn.com'' ''<html>'')) = 1"
    unfolding example_links by (simp add: example_library_def)
  have m: "\<lparr>ref_title = ''Baz'', ref_url = ''https://edition.example/2024/03/16/baz/''\<rparr>
             \<in> set (parse_main_page example_library ''https://www.cnn.com'' ''<html>'')"
    by (simp add: example_links)
  note dropped = failed_fetches_dropped [OF example_strptime example_perm example_landing h(1) l
        example_requests h(2)]
  from dropped m f
  have d: "fetch_article example_library
     \<lparr>ref_title = ''Baz'', ref_url = ''https://edition.example/2024/03/16/baz/''\<rparr> = Inr None"
    by fastforce
  from dropped n
  have r: "\<exists>results. get_main_page_articles example_library ''https://www.cnn.com'' 10 =
             Inr results \<and> length results = 1"
    by metis
  from f d r show ?thesis by blast
qed

text \<open>
  Claim C2. When the fetch of the landing page fails with a \<open>RequestException\<close>, and when
  it succeeds but link extraction finds no link, the crawl returns the empty list and
  raises nothing.
\<close>

theorem empty_crawl:
  "(session_get lib base_url = Inl RequestException \<longrightarrow>
      get_main_page_articles lib base_url threads = Inr []) \<and>
   (\<forall>html. session_get lib base_url = Inr html \<and> parse_main_page lib base_url html = [] \<longrightarrow>
      get_main_page_articles lib base_url threads = Inr [])"
  by (simp add: get_main_page_articles_def fetch_main_page_def)

theorem empty_crawl_witness:
  "session_get unreachable_library ''https://www.cnn.com'' = Inl RequestException \<and>
   get_main_page_articles unreachable_library ''https://www.cnn.com'' 10 = Inr [] \<and>
   session_get no_links_library ''https://www.cnn.com'' = Inr ''<html>'' \<and>
   parse_main_page no_links_library ''https://www.cnn.com'' ''<html>'' = [] \<and>
   get_main_page_articles no_links_library ''https://www.cnn.com'' 10 = Inr []"
proof -
  have a: "session_get unreachable_library ''https://www.cnn.com'' = Inl RequestException"
    by (simp add: unreachable_library_def)
  have b: "session_get no_links_library ''https://www.cnn.com'' = Inr ''<html>''"
    by (simp add: no_links_library_def example_library_def)
  have c: "parse_main_page no_links_library ''https://www.cnn.com'' ''<html>'' = []"
    by (simp add: no_links_library_def parse_main_page_def unique_articles_def)
  show ?thesis
    using empty_crawl [of unreachable_library "''https://www.cnn.com''" 10]
      empty_crawl [of no_links_library "''https://www.cnn.com''" 10] a b c
    by simp
qed

text \<open>
  Claim C10. When the landing page is fetched and its body is the empty string, the crawl
  returns the empty list, as it does when that fetch fails, and whatever link extraction
  would find in the body: the body is tested for truth, and link extraction is not
  reached.
\<close>

theorem empty_landing_page_like_failure:
  assumes "session_get lib base_url = Inr []"
  shows "get_main_page_articles lib base_url threads = Inr [] \<and>
         get_main_page_articles lib base_url threads =
           get_main_page_articles
             (lib\<lparr>session_get := (session_get lib)(base_url := Inl RequestException)\<rparr>)
             base_url threads \<and>
         (\<forall>anchors. get_main_page_articles (lib\<lparr>soup_anchors := anchors\<rparr>) base_url threads = Inr [])"
  using assms by (simp add: get_main_page_articles_def fetch_main_page_def)

theorem empty_landing_page_like_failure_witness:
  "session_get blank_library ''https://www.cnn.com'' = Inr [] \<and>
   get_main_page_articles blank_library ''https://www.cnn.com'' 10 = Inr [] \<and>
   get_main_page_articles (blank_library\<lparr>soup_anchors := (\<lambda>h. example_anchors)\<rparr>)
     ''https://www.cnn.com'' 10 = Inr []"
proof -
  have a: "session_get blank_library ''https://www.cnn.com'' = Inr []"
    by (simp add: blank_library_def)
  show ?thesis
    using empty_landing_page_like_failure [OF a, of 10] a by simp
qed

section \<open>The exit status\<close>

lemma example_console_crawl:
  "get_main_page_articles example_library ''https://www.cnn.com'' (arg_threads example_args) =
     Inr [example_article]"
  by (simp add: example_args_def example_crawl)

lemma example_json_crawl:
  "get_main_page_articles example_library ''https://www.cnn.com'' (arg_threads json_args) =
     Inr [example_article]"
  by (simp add: json_args_def example_crawl)

text \<open>
  Claim C8, as the code has it. A run whose crawl returns no article ends with a status
  that is not zero. A run whose crawl returns one or more articles ends with status zero,
  however many article fetches failed, when the output goes to the console and when the
  JSON file is written; when opening or writing the JSON file raises, nothing catches the
  error and the run ends with a status that is not zero.
\<close>

theorem exit_status_contract:
  "(get_main_page_articles lib ''https://www.cnn.com'' (arg_threads a) = Inr [] \<longrightarrow>
      exit_status (main lib a) \<noteq> 0) \<and>
   (\<forall>articles. get_main_page_articles lib ''https://www.cnn.com'' (arg_threads a) = Inr articles \<and>
      articles \<noteq> [] \<and> arg_output a = Console \<longrightarrow> exit_status (main lib a) = 0) \<and>
   (\<forall>articles u. get_main_page_articles lib ''https://www.cnn.com'' (arg_threads a) = Inr articles \<and>
      articles \<noteq> [] \<and> arg_output a = Json \<and>
      write_json lib (output_file a) articles = Inr u \<longrightarrow> exit_status (main lib a) = 0) \<and>
   (\<forall>articles e. get_main_page_articles lib ''https://www.cnn.com'' (arg_threads a) = Inr articles \<and>
      articles \<noteq> [] \<and> arg_output a = Json \<and>
      write_json lib (output_file a) articles = Inl e \<longrightarrow> exit_status (main lib a) \<noteq> 0)"
  by (simp add: main_def)

theorem exit_status_contract_witness:
  "get_main_page_articles unreachable_library ''https://www.cnn.com'' (arg_threads example_args) = Inr [] \<and>
   exit_status (main unreachable_library example_args) \<noteq> 0 \<and>
   get_main_page_articles example_library ''https://www.cnn.com'' (arg_threads example_args) =
     Inr [example_article] \<and>
   isl (session_get example_library ''https://edition.example/2024/03/16/baz/'') \<and>
   exit_status (main example_library example_args) = 0 \<and>
   write_json example_library (output_file json_args) [example_article] = Inr () \<and>
   exit_status (main example_library json_args) = 0"
proof -
  have a: "get_main_page_articles unreachable_library ''https://www.cnn.com''
             (arg_threads example_args) = Inr []"
    by (simp add: unreachable_library_def get_main_page_articles_def fetch_main_page_def)
  have c: "isl (session_get example_library ''https://edition.example/2024/03/16/baz/'')"
    by (simp add: example_library_def)
  have o: "arg_output example_args = Console" "arg_output json_args = Json"
    by (simp_all add: example_args_def json_args_def)
  have w: "write_json example_library (output_file json_args) [example_article] = Inr ()"
    by (simp add: example_library_def output_file_def json_args_def)
  have n: "[example_article] \<noteq> []" by simp
  from exit_status_contract [of unreachable_library example_args] a
  have r1: "exit_status (main unreachable_library example_args) \<noteq> 0"
    by blast
  from exit_status_contract [of example_library example_args] example_console_crawl n o(1)
  have r2: "exit_status (main example_library example_args) = 0"
    by blast
  from exit_status_contract [of example_library json_args] example_json_crawl n o(2) w
  have r3: "exit_status (main example_library json_args) = 0"
    by blast
  from a r1 example_console_crawl c r2 w r3 show ?thesis by blast
qed

text \<open>
  Claim C8, as stated, fails: a run that is told to write its JSON output into a directory
  that does not exist has one article and ends with status 1.
\<close>

theorem unwritable_file_counterexample:
  "get_main_page_articles example_library ''https://www.cnn.com'' (arg_threads bad_file_args) =
     Inr [example_article] \<and>
   arg_file bad_file_args = Some ''/nonexistent-dir/out.json'' \<and>
   exit_status (main example_library bad_file_args) = 1"
  by code_simp

end
